theory Spec2Isabelle
  imports Main "HOL-Library.Word"
begin

section \<open>Data model of the webhook correlation engine\<close>

text \<open>
  The development embeds \<^verbatim>\<open>eventsources/webhooks/http.go\<close>: the methods
  \<^verbatim>\<open>secretKey\<close>, \<^verbatim>\<open>handleStartEvent\<close>, \<^verbatim>\<open>handleEndEvent\<close> and
  \<^verbatim>\<open>handleEvent\<close> of \<^verbatim>\<open>Webhook\<close>. Go's \<^verbatim>\<open>error\<close> results are values;
  the mutable collaborators (the two span stores, the tracing backend) are
  passed in and returned as explicit state. The \<^verbatim>\<open>context.Context\<close> argument
  is only handed through to the stores, so it is left out. \<^verbatim>\<open>Handler\<close>, the
  HTTP entry point, wires these methods to the payload validation, the logger
  and the response writer; it is not modelled.
\<close>

subsection \<open>Errors\<close>

text \<open>
  \<open>Err m\<close> is an error value produced by a collaborator (an event accessor
  or a store), identified by its message. \<open>Errorf f a\<close> is the value of
  \<^verbatim>\<open>fmt.Errorf(f, a)\<close> with its format and its single argument kept apart.
  \<open>SpanMissingError\<close> is \<^verbatim>\<open>traces.SpanMissingError{Err: ...}\<close>.
\<close>

datatype error =
    Err string
  | Errorf string string
  | SpanMissingError error

subsection \<open>Events\<close>

text \<open>
  \<^verbatim>\<open>eventsources.Event\<close> is an interface of accessors, each of which may
  fail on its own. An event is the record of what each accessor returns:
  \<open>Inl\<close> is a non-nil \<^verbatim>\<open>err\<close>, \<open>Inr\<close> the value. \<^verbatim>\<open>TraceID\<close> and
  \<^verbatim>\<open>ParentSpanID\<close> return a \<^verbatim>\<open>*string\<close>; \<open>None\<close> is the nil pointer.
  \<^verbatim>\<open>Tags\<close> returns a Go map; the list gives its pairs in the order in
  which \<^verbatim>\<open>range\<close> visits them.
\<close>

datatype SpanState = StartState | EndState | OtherState

datatype tag_value = BoolValue bool | StringValue string | IntValue int

record Event =
  State :: "error + SpanState"
  SpanID :: "error + string"
  TraceID :: "error + string option"
  ParentSpanID :: "error + string option"
  OperationName :: string
  Tags :: "error + (string \<times> tag_value) list"
  IsError :: "error + bool"

subsection \<open>Spans and the tracer\<close>

text \<open>
  An \<^verbatim>\<open>opentracing.Span\<close> is a reference to an object owned by the tracing
  backend. The tracer state is the backend's heap: what it knows of every
  span, and the next free reference. \<^verbatim>\<open>SetTag\<close> overwrites the tag of a
  key, as the interface documents.
\<close>

type_synonym Span = nat

datatype StartSpanOption = ChildOf Span

record SpanData =
  operationName :: string
  references :: "StartSpanOption list"
  tags :: "string \<rightharpoonup> tag_value"
  finished :: bool

record Tracer =
  heap :: "Span \<Rightarrow> SpanData"
  next_span :: Span

subsection \<open>Span stores\<close>

text \<open>
  Modelled from the spec: the interface \<^verbatim>\<open>traces.SpanStore\<close> and its
  implementations are not part of the file. A store maps identifiers to open
  spans. \<^verbatim>\<open>Get\<close> returns nil, not an error, for an absent key; \<^verbatim>\<open>Set\<close>
  stores or overwrites; \<^verbatim>\<open>Delete\<close> removes the key and never fails on an
  absent one. Each operation returns an \<^verbatim>\<open>error\<close>: the three fault tables
  say for which keys the operation fails and with what. A failed operation
  leaves the entries as they were.
\<close>

record SpanStore =
  entries :: "string \<rightharpoonup> Span"
  get_error :: "string \<rightharpoonup> error"
  set_error :: "string \<rightharpoonup> error"
  delete_error :: "string \<rightharpoonup> error"

text \<open>
  Modelled from the spec: \<^verbatim>\<open>Get(ctx, tracer, id)\<close> of \<^verbatim>\<open>traces.SpanStore\<close>,
  which is not part of the file. An absent key gives nil and no error; a
  stored span is returned unless the lookup of that key fails. The tracer
  argument serves to rebuild the span object from what is stored; here the
  stored reference itself is returned.
\<close>

definition SpanStore_Get :: "SpanStore \<Rightarrow> string \<Rightarrow> error + Span option" where
  "SpanStore_Get st k =
     (case entries st k of
        None \<Rightarrow> Inr None
      | Some sp \<Rightarrow> (case get_error st k of Some err \<Rightarrow> Inl err | None \<Rightarrow> Inr (Some sp)))"

text \<open>
  Modelled from the spec: \<^verbatim>\<open>Set(ctx, id, span)\<close> of \<^verbatim>\<open>traces.SpanStore\<close>,
  which is not part of the file. It stores the span under the key, over any
  earlier entry, unless the write of that key fails.
\<close>

definition SpanStore_Set :: "SpanStore \<Rightarrow> string \<Rightarrow> Span \<Rightarrow> error option \<times> SpanStore" where
  "SpanStore_Set st k sp =
     (case set_error st k of
        Some err \<Rightarrow> (Some err, st)
      | None \<Rightarrow> (None, st\<lparr>entries := (entries st)(k \<mapsto> sp)\<rparr>))"

text \<open>
  Modelled from the spec: \<^verbatim>\<open>Delete(ctx, id)\<close> of \<^verbatim>\<open>traces.SpanStore\<close>,
  which is not part of the file. Deleting an absent key is not an error; a
  present key is removed unless the delete of that key fails.
\<close>

definition SpanStore_Delete :: "SpanStore \<Rightarrow> string \<Rightarrow> error option \<times> SpanStore" where
  "SpanStore_Delete st k =
     (case entries st k of
        None \<Rightarrow> (None, st)
      | Some sp \<Rightarrow>
          (case delete_error st k of
             Some err \<Rightarrow> (Some err, st)
           | None \<Rightarrow> (None, st\<lparr>entries := (entries st)(k := None)\<rparr>)))"

subsection \<open>The webhook and the state a handler runs in\<close>

text \<open>
  \<^verbatim>\<open>[]byte\<close> distinguishes the nil slice (\<open>None\<close>) from an empty one.
  Of the \<^verbatim>\<open>Webhook\<close> struct the fields \<^verbatim>\<open>EventSource\<close> and \<^verbatim>\<open>Tracers\<close>
  are used by \<^verbatim>\<open>Handler\<close> only and are not modelled.
\<close>

type_synonym bytes = "8 word list option"

record Webhook =
  SecretKey :: bytes
  Traces :: SpanStore
  Spans :: SpanStore

text \<open>
  A handler runs on the webhook (whose stores it mutates) and on the tracer
  it is given: the state it is run in is the webhook together with that
  tracer. \<open>calls\<close> is the history of the calls made to the stores, the
  tracer and the spans, oldest first; the handlers never read it. It makes
  a lookup, which changes nothing, visible as well.
\<close>

datatype store_name = TracesStore | SpansStore

datatype call =
    StoreGet store_name string
  | StoreSet store_name string Span
  | StoreDelete store_name string
  | TracerStartSpan string "StartSpanOption list"
  | SpanSetTag Span string tag_value
  | SpanFinish Span

record World = Webhook +
  tracer :: Tracer
  calls :: "call list"

definition record_call :: "call \<Rightarrow> World \<Rightarrow> World" where
  "record_call c w = w\<lparr>calls := calls w @ [c]\<rparr>"

definition Traces_Get :: "string \<Rightarrow> World \<Rightarrow> (error + Span option) \<times> World" where
  "Traces_Get k w = (SpanStore_Get (Traces w) k, record_call (StoreGet TracesStore k) w)"

definition Traces_Set :: "string \<Rightarrow> Span \<Rightarrow> World \<Rightarrow> error option \<times> World" where
  "Traces_Set k sp w =
     (case SpanStore_Set (Traces w) k sp of
        (err, st) \<Rightarrow> (err, record_call (StoreSet TracesStore k sp) (w\<lparr>Traces := st\<rparr>)))"

definition Traces_Delete :: "string \<Rightarrow> World \<Rightarrow> error option \<times> World" where
  "Traces_Delete k w =
     (case SpanStore_Delete (Traces w) k of
        (err, st) \<Rightarrow> (err, record_call (StoreDelete TracesStore k) (w\<lparr>Traces := st\<rparr>)))"

definition Spans_Get :: "string \<Rightarrow> World \<Rightarrow> (error + Span option) \<times> World" where
  "Spans_Get k w = (SpanStore_Get (Spans w) k, record_call (StoreGet SpansStore k) w)"

definition Spans_Set :: "string \<Rightarrow> Span \<Rightarrow> World \<Rightarrow> error option \<times> World" where
  "Spans_Set k sp w =
     (case SpanStore_Set (Spans w) k sp of
        (err, st) \<Rightarrow> (err, record_call (StoreSet SpansStore k sp) (w\<lparr>Spans := st\<rparr>)))"

definition Spans_Delete :: "string \<Rightarrow> World \<Rightarrow> error option \<times> World" where
  "Spans_Delete k w =
     (case SpanStore_Delete (Spans w) k of
        (err, st) \<Rightarrow> (err, record_call (StoreDelete SpansStore k) (w\<lparr>Spans := st\<rparr>)))"

text \<open>\<^verbatim>\<open>tracer.StartSpan(name, opts...)\<close>: a fresh, unfinished, untagged span.\<close>

definition StartSpan :: "string \<Rightarrow> StartSpanOption list \<Rightarrow> World \<Rightarrow> Span \<times> World" where
  "StartSpan name opts w =
     (let t = tracer w; sp = next_span t
      in (sp, record_call (TracerStartSpan name opts)
                (w\<lparr>tracer := t\<lparr>heap := (heap t)(sp := \<lparr>operationName = name, references = opts,
                                                         tags = Map.empty, finished = False\<rparr>),
                                next_span := Suc sp\<rparr>\<rparr>)))"

definition SetTag :: "Span \<Rightarrow> string \<Rightarrow> tag_value \<Rightarrow> World \<Rightarrow> World" where
  "SetTag sp k v w =
     (let t = tracer w; d = heap t sp
      in record_call (SpanSetTag sp k v)
           (w\<lparr>tracer := t\<lparr>heap := (heap t)(sp := d\<lparr>tags := (tags d)(k \<mapsto> v)\<rparr>)\<rparr>\<rparr>))"

definition Finish :: "Span \<Rightarrow> World \<Rightarrow> World" where
  "Finish sp w =
     (let t = tracer w; d = heap t sp
      in record_call (SpanFinish sp)
           (w\<lparr>tracer := t\<lparr>heap := (heap t)(sp := d\<lparr>finished := True\<rparr>)\<rparr>\<rparr>))"

section \<open>The handlers\<close>

subsection \<open>secretKey\<close>

text \<open>
  \<^verbatim>\<open>r.Context().Value(CtxSecretTokenKey)\<close> yields an \<^verbatim>\<open>interface{}\<close>:
  nil when the context has no value for the key (\<open>None\<close>), else a value of
  some dynamic type. The assertion \<^verbatim>\<open>k.([]byte)\<close> succeeds on \<open>BytesValue\<close>
  only, and a nil slice inside it is still rejected by \<^verbatim>\<open>v != nil\<close>. The
  key \<^verbatim>\<open>CtxSecretTokenKey\<close> is declared elsewhere in the package.
\<close>

datatype ctx_key = CtxSecretTokenKey | OtherKey string

datatype any = BytesValue bytes | StringVal string | IntVal int

record Request =
  Context :: "ctx_key \<rightharpoonup> any"

definition secretKey :: "'a Webhook_scheme \<Rightarrow> Request \<Rightarrow> bytes" where
  "secretKey wh r =
     (let sk = SecretKey wh;
          k = Context r CtxSecretTokenKey;
          (v, ok) = (case k of Some (BytesValue b) \<Rightarrow> (b, True) | _ \<Rightarrow> (None, False))
      in if ok \<and> v \<noteq> None then v else sk)"

subsection \<open>handleStartEvent\<close>

text \<open>The loop \<^verbatim>\<open>for k, v := range tags { span.SetTag(k, v) }\<close>.\<close>

primrec SetTags :: "Span \<Rightarrow> (string \<times> tag_value) list \<Rightarrow> World \<Rightarrow> World" where
  "SetTags sp [] w = w"
| "SetTags sp (kv # kvs) w = SetTags sp kvs (SetTag sp (fst kv) (snd kv) w)"

text \<open>
  Lines 111 to 129: the parent is resolved and the options of the new span
  are built. The parent is looked up in the trace store, under the event's
  \<^verbatim>\<open>ParentSpanID\<close>.
\<close>

definition parentOptions :: "Event \<Rightarrow> World \<Rightarrow> (error + StartSpanOption list) \<times> World" where
  "parentOptions e w =
     (case ParentSpanID e of
        Inl err \<Rightarrow> (Inl err, w)
      | Inr None \<Rightarrow> (Inr [], w)
      | Inr (Some parentID) \<Rightarrow>
          (case Traces_Get parentID w of
             (Inl err, w1) \<Rightarrow> (Inl err, w1)
           | (Inr None, w1) \<Rightarrow> (Inr [], w1)
           | (Inr (Some parentSpan), w1) \<Rightarrow> (Inr [ChildOf parentSpan], w1)))"

text \<open>
  Lines 131 to 167. The result of \<^verbatim>\<open>wh.Traces.Set\<close> is dropped by the
  source (line 154), the one of \<^verbatim>\<open>wh.Spans.Set\<close> is returned.
\<close>

definition handleStartEvent :: "Event \<Rightarrow> World \<Rightarrow> error option \<times> World" where
  "handleStartEvent e w =
     (case parentOptions e w of
        (Inl err, w1) \<Rightarrow> (Some err, w1)
      | (Inr opts, w1) \<Rightarrow>
          (case StartSpan (OperationName e) opts w1 of
             (span, w2) \<Rightarrow>
               (case Tags e of
                  Inl err \<Rightarrow> (Some err, w2)
                | Inr tgs \<Rightarrow>
                    (let w3 = SetTags span tgs w2
                     in case TraceID e of
                          Inl err \<Rightarrow> (Some err, w3)
                        | Inr traceID \<Rightarrow>
                            (let w4 = (case traceID of
                                         None \<Rightarrow> w3
                                       | Some tid \<Rightarrow> snd (Traces_Set tid span w3))
                             in case SpanID e of
                                  Inl err \<Rightarrow> (Some err, w4)
                                | Inr spanID \<Rightarrow> Spans_Set spanID span w4)))))"

subsection \<open>handleEndEvent\<close>

definition handleEndEvent :: "Event \<Rightarrow> World \<Rightarrow> error option \<times> World" where
  "handleEndEvent e w =
     (case SpanID e of
        Inl err \<Rightarrow> (Some err, w)
      | Inr spanID \<Rightarrow>
          (case Spans_Get spanID w of
             (Inl err, w1) \<Rightarrow> (Some err, w1)
           | (Inr None, w1) \<Rightarrow>
               (Some (SpanMissingError (Errorf ''span not found for span: %q'' spanID)), w1)
           | (Inr (Some span), w1) \<Rightarrow>
               (case IsError e of
                  Inl err \<Rightarrow> (Some err, w1)
                | Inr isE \<Rightarrow>
                    (let w2 = Finish span (SetTag span ''error'' (BoolValue isE) w1)
                     in case Spans_Delete spanID w2 of
                          (Some err, w3) \<Rightarrow> (Some err, w3)
                        | (None, w3) \<Rightarrow>
                            (case TraceID e of
                               Inl err \<Rightarrow> (Some err, w3)
                             | Inr None \<Rightarrow> (None, w3)
                             | Inr (Some tid) \<Rightarrow> Traces_Delete tid w3)))))"

subsection \<open>handleEvent\<close>

definition handleEvent :: "Event \<Rightarrow> World \<Rightarrow> error option \<times> World" where
  "handleEvent e w =
     (case State e of
        Inl err \<Rightarrow> (Some err, w)
      | Inr state \<Rightarrow>
          (case state of
             StartState \<Rightarrow> handleStartEvent e w
           | EndState \<Rightarrow> handleEndEvent e w
           | OtherState \<Rightarrow> (None, w)))"

section \<open>Concrete events and states\<close>

text \<open>
  The scenarios of the specification, used to run the handlers: a fresh
  tracer, two empty stores that never fail, and the events
  Start \<^verbatim>\<open>{SpanID: "s1", TraceID: "t1", OperationName: "ticket.process"}\<close>,
  End \<^verbatim>\<open>{SpanID: "s1", TraceID: "t1", IsError: false}\<close>,
  End \<^verbatim>\<open>{SpanID: "s-unknown"}\<close>, Start \<^verbatim>\<open>{SpanID: "s2", TraceID: "t2"}\<close>
  and Start \<^verbatim>\<open>{SpanID: "s3", ParentSpanID: "t2"}\<close>.
\<close>

definition blank_span :: SpanData where
  "blank_span = \<lparr>operationName = [], references = [], tags = Map.empty, finished = False\<rparr>"

definition new_tracer :: Tracer where
  "new_tracer = \<lparr>heap = (\<lambda>sp. blank_span), next_span = 0\<rparr>"

definition empty_store :: SpanStore where
  "empty_store = \<lparr>entries = Map.empty, get_error = Map.empty,
                   set_error = Map.empty, delete_error = Map.empty\<rparr>"

definition world0 :: World where
  "world0 = \<lparr>SecretKey = Some [1, 2, 3], Traces = empty_store, Spans = empty_store,
              tracer = new_tracer, calls = []\<rparr>"

definition start_s1 :: Event where
  "start_s1 = \<lparr>State = Inr StartState, SpanID = Inr ''s1'', TraceID = Inr (Some ''t1''),
                ParentSpanID = Inr None, OperationName = ''ticket.process'',
                Tags = Inr [(''service'', StringValue ''jira''), (''priority'', IntValue 2)],
                IsError = Inr False\<rparr>"

definition end_s1 :: Event where
  "end_s1 = \<lparr>State = Inr EndState, SpanID = Inr ''s1'', TraceID = Inr (Some ''t1''),
              ParentSpanID = Inr None, OperationName = ''ticket.process'',
              Tags = Inr [], IsError = Inr False\<rparr>"

definition end_unknown :: Event where
  "end_unknown = \<lparr>State = Inr EndState, SpanID = Inr ''s-unknown'', TraceID = Inr None,
                   ParentSpanID = Inr None, OperationName = ''ticket.process'',
                   Tags = Inr [], IsError = Inr False\<rparr>"

definition start_s2 :: Event where
  "start_s2 = \<lparr>State = Inr StartState, SpanID = Inr ''s2'', TraceID = Inr (Some ''t2''),
                ParentSpanID = Inr None, OperationName = ''sprint'',
                Tags = Inr [], IsError = Inr False\<rparr>"

definition start_s3 :: Event where
  "start_s3 = \<lparr>State = Inr StartState, SpanID = Inr ''s3'', TraceID = Inr None,
                ParentSpanID = Inr (Some ''t2''), OperationName = ''ticket.process'',
                Tags = Inr [], IsError = Inr False\<rparr>"

text \<open>An event outside the lifecycle, such as a comment on a ticket.\<close>

definition comment_event :: Event where
  "comment_event = \<lparr>State = Inr OtherState, SpanID = Inr ''s1'', TraceID = Inr None,
                     ParentSpanID = Inr None, OperationName = ''ticket.comment'',
                     Tags = Inr [], IsError = Inr False\<rparr>"

text \<open>
  The state after Start \<open>s1\<close> in a healthy system: span 0 is open and
  registered under \<open>s1\<close> and \<open>t1\<close>.
\<close>

definition open_span0 :: SpanData where
  "open_span0 = \<lparr>operationName = ''ticket.process'', references = [],
                  tags = Map.empty, finished = False\<rparr>"

definition world_s1_open :: World where
  "world_s1_open =
     \<lparr>SecretKey = Some [1, 2, 3],
      Traces = empty_store\<lparr>entries := [''t1'' \<mapsto> 0]\<rparr>,
      Spans = empty_store\<lparr>entries := [''s1'' \<mapsto> 0]\<rparr>,
      tracer = \<lparr>heap = (\<lambda>sp. blank_span)(0 := open_span0), next_span = 1\<rparr>,
      calls = []\<rparr>"

text \<open>Faulty collaborators: a trace store whose writes or deletes of \<open>t1\<close> fail.\<close>

definition world_trace_set_fails :: World where
  "world_trace_set_fails =
     world0\<lparr>Traces := empty_store\<lparr>set_error := [''t1'' \<mapsto> Err ''trace store unavailable'']\<rparr>\<rparr>"

definition world_trace_delete_fails :: World where
  "world_trace_delete_fails =
     world_s1_open\<lparr>Traces := empty_store\<lparr>entries := [''t1'' \<mapsto> 0],
                     delete_error := [''t1'' \<mapsto> Err ''trace store unavailable'']\<rparr>\<rparr>"

text \<open>Events one of whose accessors fails.\<close>

definition start_bad_tags :: Event where
  "start_bad_tags = start_s1\<lparr>Tags := Inl (Err ''tags: malformed payload'')\<rparr>"

definition end_bad_trace :: Event where
  "end_bad_trace = end_s1\<lparr>TraceID := Inl (Err ''trace id: malformed payload'')\<rparr>"

text \<open>Requests with and without a secret in their context.\<close>

definition request_plain :: Request where
  "request_plain = \<lparr>Context = Map.empty\<rparr>"

definition request_override :: Request where
  "request_override = \<lparr>Context = [CtxSecretTokenKey \<mapsto> BytesValue (Some [9, 9])]\<rparr>"

section \<open>Verified properties\<close>

subsection \<open>What each primitive leaves alone\<close>

text \<open>
  The primitives touch one component of the state each; these equations let
  the simplifier carry a fact about the stores or the tracer across a call.
\<close>

lemma tracer_record_call [simp]: "tracer (record_call c w) = tracer w"
  and Traces_record_call [simp]: "Traces (record_call c w) = Traces w"
  and Spans_record_call [simp]: "Spans (record_call c w) = Spans w"
  and calls_record_call [simp]: "calls (record_call c w) = calls w @ [c]"
  by (simp_all add: record_call_def)

lemma SetTag_frame [simp]:
  "Traces (SetTag sp k v w) = Traces w"
  "Spans (SetTag sp k v w) = Spans w"
  "next_span (tracer (SetTag sp k v w)) = next_span (tracer w)"
  "references (heap (tracer (SetTag sp k v w)) sp') = references (heap (tracer w) sp')"
  "operationName (heap (tracer (SetTag sp k v w)) sp') = operationName (heap (tracer w) sp')"
  "finished (heap (tracer (SetTag sp k v w)) sp') = finished (heap (tracer w) sp')"
  "calls (SetTag sp k v w) = calls w @ [SpanSetTag sp k v]"
  by (simp_all add: SetTag_def Let_def)

lemma SetTags_frame [simp]:
  "Traces (SetTags sp kvs w) = Traces w"
  "Spans (SetTags sp kvs w) = Spans w"
  "next_span (tracer (SetTags sp kvs w)) = next_span (tracer w)"
  "references (heap (tracer (SetTags sp kvs w)) sp') = references (heap (tracer w) sp')"
  "operationName (heap (tracer (SetTags sp kvs w)) sp') = operationName (heap (tracer w) sp')"
  "finished (heap (tracer (SetTags sp kvs w)) sp') = finished (heap (tracer w) sp')"
  "calls (SetTags sp kvs w) = calls w @ map (\<lambda>kv. SpanSetTag sp (fst kv) (snd kv)) kvs"
  by (induction kvs arbitrary: w; simp)+

lemma Finish_frame [simp]:
  "Traces (Finish sp w) = Traces w"
  "Spans (Finish sp w) = Spans w"
  "next_span (tracer (Finish sp w)) = next_span (tracer w)"
  "tags (heap (tracer (Finish sp w)) sp') = tags (heap (tracer w) sp')"
  "finished (heap (tracer (Finish sp w)) sp)"
  "calls (Finish sp w) = calls w @ [SpanFinish sp]"
  by (simp_all add: Finish_def Let_def)

lemma SetTag_tags [simp]:
  "tags (heap (tracer (SetTag sp k v w)) sp) k = Some v"
  by (simp add: SetTag_def Let_def)

lemma StartSpan_frame [simp]:
  "fst (StartSpan name opts w) = next_span (tracer w)"
  "Traces (snd (StartSpan name opts w)) = Traces w"
  "Spans (snd (StartSpan name opts w)) = Spans w"
  "tracer (snd (StartSpan name opts w)) =
     (tracer w)\<lparr>heap := (heap (tracer w))(next_span (tracer w) :=
                          \<lparr>operationName = name, references = opts,
                           tags = Map.empty, finished = False\<rparr>),
                next_span := Suc (next_span (tracer w))\<rparr>"
  "calls (snd (StartSpan name opts w)) = calls w @ [TracerStartSpan name opts]"
  by (simp_all add: StartSpan_def Let_def)

lemma Store_ops_frame [simp]:
  "tracer (snd (Traces_Set k sp w)) = tracer w"
  "Spans (snd (Traces_Set k sp w)) = Spans w"
  "tracer (snd (Spans_Set k sp w)) = tracer w"
  "Traces (snd (Spans_Set k sp w)) = Traces w"
  "tracer (snd (Traces_Delete k w)) = tracer w"
  "Spans (snd (Traces_Delete k w)) = Spans w"
  "tracer (snd (Spans_Delete k w)) = tracer w"
  "Traces (snd (Spans_Delete k w)) = Traces w"
  "snd (Traces_Get k w) = record_call (StoreGet TracesStore k) w"
  "snd (Spans_Get k w) = record_call (StoreGet SpansStore k) w"
  by (simp_all add: Traces_Set_def Spans_Set_def Traces_Delete_def Spans_Delete_def
        Traces_Get_def Spans_Get_def split: prod.splits)

lemma Store_ops_calls [simp]:
  "calls (snd (Traces_Set k sp w)) = calls w @ [StoreSet TracesStore k sp]"
  "calls (snd (Spans_Set k sp w)) = calls w @ [StoreSet SpansStore k sp]"
  "calls (snd (Traces_Delete k w)) = calls w @ [StoreDelete TracesStore k]"
  "calls (snd (Spans_Delete k w)) = calls w @ [StoreDelete SpansStore k]"
  by (simp_all add: Traces_Set_def Spans_Set_def Traces_Delete_def Spans_Delete_def
        split: prod.splits)

lemma parentOptions_frame:
  "Traces (snd (parentOptions e w)) = Traces w"
  "Spans (snd (parentOptions e w)) = Spans w"
  "tracer (snd (parentOptions e w)) = tracer w"
  by (simp_all add: parentOptions_def Traces_Get_def split: sum.splits option.splits)

lemmas run_defs =
  handleStartEvent_def handleEndEvent_def parentOptions_def
  Traces_Get_def Traces_Set_def Traces_Delete_def Spans_Get_def Spans_Set_def Spans_Delete_def
  SpanStore_Get_def SpanStore_Set_def SpanStore_Delete_def
  StartSpan_def SetTag_def Finish_def record_call_def Let_def

lemmas scenario_defs =
  world0_def empty_store_def new_tracer_def blank_span_def open_span0_def world_s1_open_def
  world_trace_set_fails_def world_trace_delete_fails_def
  start_s1_def end_s1_def end_unknown_def start_s2_def start_s3_def
  start_bad_tags_def end_bad_trace_def

subsection \<open>Dispatch and secret resolution\<close>

text \<open>
  Claim C6. Whenever the event's \<^verbatim>\<open>State()\<close> resolves to a state that is
  neither Start nor End, \<^verbatim>\<open>handleEvent\<close> returns no error and hands back the
  webhook, the tracer and the call history exactly as it received them: no
  store was read or written, and no span was started, tagged or finished.
\<close>

theorem handleEvent_other_state_noop:
  assumes "State e = Inr s" and "s \<noteq> StartState" and "s \<noteq> EndState"
  shows "handleEvent e w = (None, w)"
  using assms by (cases s) (simp_all add: handleEvent_def)

theorem handleEvent_other_state_noop_witness:
  "State comment_event = Inr OtherState \<and> OtherState \<noteq> StartState \<and> OtherState \<noteq> EndState
   \<and> handleEvent comment_event world_s1_open = (None, world_s1_open)"
proof -
  have other: "State comment_event = Inr OtherState"
    by (simp add: comment_event_def)
  from handleEvent_other_state_noop [OF other, of world_s1_open] other
  show ?thesis by simp
qed

text \<open>
  Claim C8. The secret is taken from the request first and from the static
  configuration second: when the request context holds a non-nil byte slice
  under \<^verbatim>\<open>CtxSecretTokenKey\<close>, \<^verbatim>\<open>secretKey\<close> returns that slice; in every
  other case (no value, a value of another type, a nil slice) it returns the
  webhook's \<^verbatim>\<open>SecretKey\<close>.
\<close>

theorem secretKey_resolution:
  "(Context r CtxSecretTokenKey = Some (BytesValue (Some v)) \<longrightarrow> secretKey wh r = Some v)
   \<and> ((\<forall>v. Context r CtxSecretTokenKey \<noteq> Some (BytesValue (Some v)))
        \<longrightarrow> secretKey wh r = SecretKey wh)"
  by (auto simp add: secretKey_def split: option.splits any.splits)

theorem secretKey_resolution_witness:
  "Context request_override CtxSecretTokenKey = Some (BytesValue (Some [9, 9]))
   \<and> secretKey world0 request_override = Some [9, 9]
   \<and> (\<forall>v. Context request_plain CtxSecretTokenKey \<noteq> Some (BytesValue (Some v)))
   \<and> secretKey world0 request_plain = Some [1, 2, 3]"
proof -
  have override: "Context request_override CtxSecretTokenKey = Some (BytesValue (Some [9, 9]))"
    by (simp add: request_override_def)
  have plain: "\<forall>v. Context request_plain CtxSecretTokenKey \<noteq> Some (BytesValue (Some v))"
    by (simp add: request_plain_def)
  have static: "SecretKey world0 = Some [1, 2, 3]"
    by (simp add: world0_def)
  from secretKey_resolution [of request_override "[9, 9]" world0] override
  have "secretKey world0 request_override = Some [9, 9]"
    by blast
  moreover from secretKey_resolution [of request_plain _ world0] plain static
  have "secretKey world0 request_plain = Some [1, 2, 3]"
    by simp
  ultimately show ?thesis
    using override plain by blast
qed

subsection \<open>Start events\<close>

text \<open>
  Once the parent is resolved a span is started, whatever happens next: the
  tracer has one span more, with the event's operation name and the options
  built from the parent, and it is not finished.
\<close>

lemma handleStartEvent_span_started:
  assumes "parentOptions e w = (Inr opts, w1)"
  shows "next_span (tracer (snd (handleStartEvent e w))) = Suc (next_span (tracer w))"
    and "references (heap (tracer (snd (handleStartEvent e w))) (next_span (tracer w))) = opts"
    and "operationName (heap (tracer (snd (handleStartEvent e w))) (next_span (tracer w)))
           = OperationName e"
    and "\<not> finished (heap (tracer (snd (handleStartEvent e w))) (next_span (tracer w)))"
    and "TracerStartSpan (OperationName e) opts \<in> set (calls (snd (handleStartEvent e w)))"
proof -
  have w1: "tracer w1 = tracer w"
    using parentOptions_frame(3) [of e w] assms by simp
  show "next_span (tracer (snd (handleStartEvent e w))) = Suc (next_span (tracer w))"
    and "references (heap (tracer (snd (handleStartEvent e w))) (next_span (tracer w))) = opts"
    and "operationName (heap (tracer (snd (handleStartEvent e w))) (next_span (tracer w)))
           = OperationName e"
    and "\<not> finished (heap (tracer (snd (handleStartEvent e w))) (next_span (tracer w)))"
    and "TracerStartSpan (OperationName e) opts \<in> set (calls (snd (handleStartEvent e w)))"
    using assms w1
    by (simp_all add: handleStartEvent_def case_prod_unfold Let_def
          split: sum.splits option.splits)
qed

lemma parentOptions_found:
  assumes "ParentSpanID e = Inr (Some x)" and "SpanStore_Get (Traces w) x = Inr (Some p)"
  shows "parentOptions e w = (Inr [ChildOf p], record_call (StoreGet TracesStore x) w)"
  using assms by (simp add: parentOptions_def Traces_Get_def)

lemma parentOptions_absent:
  assumes "ParentSpanID e = Inr (Some x)" and "SpanStore_Get (Traces w) x = Inr None"
  shows "parentOptions e w = (Inr [], record_call (StoreGet TracesStore x) w)"
  using assms by (simp add: parentOptions_def Traces_Get_def)

lemma parentOptions_no_parent:
  "ParentSpanID e = Inr None \<Longrightarrow> parentOptions e w = (Inr [], w)"
  by (simp add: parentOptions_def)

text \<open>
  \<^verbatim>\<open>handleStartEvent\<close> succeeds exactly when the parent resolution, the
  accessors \<^verbatim>\<open>Tags\<close>, \<^verbatim>\<open>TraceID\<close> and \<^verbatim>\<open>SpanID\<close> and the write to the
  span store succeed. The write to the trace store does not appear.
\<close>

lemma handleStartEvent_success_iff:
  "fst (handleStartEvent e w) = None \<longleftrightarrow>
     (\<exists>opts w1 tgs t sid. parentOptions e w = (Inr opts, w1) \<and> Tags e = Inr tgs
        \<and> TraceID e = Inr t \<and> SpanID e = Inr sid \<and> set_error (Spans w) sid = None)"
proof (cases "parentOptions e w")
  case (Pair r w1)
  with parentOptions_frame(2) [of e w] show ?thesis
    by (cases r; cases "Tags e"; cases "TraceID e"; cases "SpanID e")
       (auto simp add: handleStartEvent_def case_prod_unfold Let_def Spans_Set_def
          SpanStore_Set_def split: option.splits)
qed

text \<open>
  Every failure the source checks is returned as it is: of \<^verbatim>\<open>ParentSpanID\<close>,
  of the parent lookup, of \<^verbatim>\<open>Tags\<close>, \<^verbatim>\<open>TraceID\<close> and \<^verbatim>\<open>SpanID\<close>, and of
  the write to the span store.
\<close>

lemma handleStartEvent_checked_failures:
  "ParentSpanID e = Inl err \<Longrightarrow> fst (handleStartEvent e w) = Some err"
  "ParentSpanID e = Inr (Some x) \<Longrightarrow> SpanStore_Get (Traces w) x = Inl err \<Longrightarrow>
     fst (handleStartEvent e w) = Some err"
  "parentOptions e w = (Inr opts, w1) \<Longrightarrow> Tags e = Inl err \<Longrightarrow>
     fst (handleStartEvent e w) = Some err"
  "parentOptions e w = (Inr opts, w1) \<Longrightarrow> Tags e = Inr tgs \<Longrightarrow> TraceID e = Inl err \<Longrightarrow>
     fst (handleStartEvent e w) = Some err"
  "parentOptions e w = (Inr opts, w1) \<Longrightarrow> Tags e = Inr tgs \<Longrightarrow> TraceID e = Inr t \<Longrightarrow>
     SpanID e = Inl err \<Longrightarrow> fst (handleStartEvent e w) = Some err"
  "parentOptions e w = (Inr opts, w1) \<Longrightarrow> Tags e = Inr tgs \<Longrightarrow> TraceID e = Inr t \<Longrightarrow>
     SpanID e = Inr sid \<Longrightarrow> set_error (Spans w) sid = Some err \<Longrightarrow>
     fst (handleStartEvent e w) = Some err"
proof -
  show "fst (handleStartEvent e w) = Some err" if "ParentSpanID e = Inl err"
    using that by (simp add: handleStartEvent_def parentOptions_def)
  show "fst (handleStartEvent e w) = Some err"
    if "ParentSpanID e = Inr (Some x)" and "SpanStore_Get (Traces w) x = Inl err"
    using that by (simp add: handleStartEvent_def parentOptions_def Traces_Get_def)
  show "fst (handleStartEvent e w) = Some err"
    if "parentOptions e w = (Inr opts, w1)" and "Tags e = Inl err"
    using that by (simp add: handleStartEvent_def case_prod_unfold)
  show "fst (handleStartEvent e w) = Some err"
    if "parentOptions e w = (Inr opts, w1)" and "Tags e = Inr tgs" and "TraceID e = Inl err"
    using that by (simp add: handleStartEvent_def case_prod_unfold Let_def)
  show "fst (handleStartEvent e w) = Some err"
    if "parentOptions e w = (Inr opts, w1)" and "Tags e = Inr tgs" and "TraceID e = Inr t"
      and "SpanID e = Inl err"
    using that by (simp add: handleStartEvent_def case_prod_unfold Let_def)
  show "fst (handleStartEvent e w) = Some err"
    if "parentOptions e w = (Inr opts, w1)" and "Tags e = Inr tgs" and "TraceID e = Inr t"
      and "SpanID e = Inr sid" and "set_error (Spans w) sid = Some err"
    using that parentOptions_frame(2) [of e w]
    by (simp add: handleStartEvent_def case_prod_unfold Let_def Spans_Set_def SpanStore_Set_def
          split: option.splits)
qed

text \<open>
  After a successful start the span store holds the new span under the
  event's \<^verbatim>\<open>SpanID\<close>; the trace store holds it under the declared
  \<^verbatim>\<open>TraceID\<close> provided the trace store accepted the write.
\<close>

lemma handleStartEvent_registers:
  assumes "fst (handleStartEvent e w) = None" and "SpanID e = Inr sid"
  shows "entries (Spans (snd (handleStartEvent e w))) sid = Some (next_span (tracer w))"
    and "TraceID e = Inr (Some tid) \<Longrightarrow> set_error (Traces w) tid = None \<Longrightarrow>
           entries (Traces (snd (handleStartEvent e w))) tid = Some (next_span (tracer w))"
proof -
  from assms(1) obtain opts w1 tgs t where po: "parentOptions e w = (Inr opts, w1)"
    and tg: "Tags e = Inr tgs" and tr: "TraceID e = Inr t"
    and ok: "set_error (Spans w) sid = None"
    using assms(2) by (auto simp add: handleStartEvent_success_iff)
  have w1: "tracer w1 = tracer w" "Traces w1 = Traces w" "Spans w1 = Spans w"
    using parentOptions_frame [of e w] po by simp_all
  show "entries (Spans (snd (handleStartEvent e w))) sid = Some (next_span (tracer w))"
    using po tg tr ok assms(2) w1
    by (simp add: handleStartEvent_def case_prod_unfold Let_def Spans_Set_def SpanStore_Set_def
          split: option.splits)
  show "entries (Traces (snd (handleStartEvent e w))) tid = Some (next_span (tracer w))"
    if "TraceID e = Inr (Some tid)" and "set_error (Traces w) tid = None"
    using that po tg ok assms(2) w1
    by (simp add: handleStartEvent_def case_prod_unfold Let_def Traces_Set_def SpanStore_Set_def
          split: option.splits)
qed

text \<open>
  Claim C2. Start \<open>s1\<close>, which declares the trace \<open>t1\<close>, is handled while the
  trace store refuses the write of \<open>t1\<close>. The source calls
  \<^verbatim>\<open>wh.Traces.Set\<close> and drops its result: the call is made, it returns an
  error, and \<^verbatim>\<open>handleStartEvent\<close> returns nil all the same.
\<close>

theorem handleStartEvent_drops_trace_store_error:
  "TraceID start_s1 = Inr (Some ''t1'')
   \<and> fst (SpanStore_Set (Traces world_trace_set_fails) ''t1'' 0)
       = Some (Err ''trace store unavailable'')
   \<and> StoreSet TracesStore ''t1'' 0 \<in> set (calls (snd (handleStartEvent start_s1 world_trace_set_fails)))
   \<and> fst (handleStartEvent start_s1 world_trace_set_fails) = None"
  by (simp add: run_defs scenario_defs)

text \<open>
  Claim C3. In the same run \<^verbatim>\<open>handleStartEvent\<close> returns successfully and
  the span store holds the new span under \<open>s1\<close>, but the trace store has no
  entry for the declared \<open>t1\<close>.
\<close>

theorem handleStartEvent_trace_not_registered:
  "TraceID start_s1 = Inr (Some ''t1'')
   \<and> SpanID start_s1 = Inr ''s1''
   \<and> fst (handleStartEvent start_s1 world_trace_set_fails) = None
   \<and> entries (Spans (snd (handleStartEvent start_s1 world_trace_set_fails))) ''s1'' = Some 0
   \<and> entries (Traces (snd (handleStartEvent start_s1 world_trace_set_fails))) ''t1'' = None"
  by (simp add: run_defs scenario_defs)

text \<open>
  Claim C5. A Start event carries \<^verbatim>\<open>ParentSpanID\<close> \<open>x\<close> and the trace store
  holds the span \<open>p\<close> under \<open>x\<close>. If the lookup itself fails, that error is
  returned and nothing else happens. Otherwise exactly one span is created,
  under the event's operation name, and it is started with the single option
  \<^verbatim>\<open>ChildOf\<close> \<open>p\<close>.
\<close>

theorem handleStartEvent_child_of_parent:
  assumes "ParentSpanID e = Inr (Some x)" and "entries (Traces w) x = Some p"
  shows "case get_error (Traces w) x of
           Some err \<Rightarrow> handleStartEvent e w = (Some err, record_call (StoreGet TracesStore x) w)
         | None \<Rightarrow>
             next_span (tracer (snd (handleStartEvent e w))) = Suc (next_span (tracer w))
           \<and> references (heap (tracer (snd (handleStartEvent e w))) (next_span (tracer w)))
               = [ChildOf p]
           \<and> operationName (heap (tracer (snd (handleStartEvent e w))) (next_span (tracer w)))
               = OperationName e
           \<and> TracerStartSpan (OperationName e) [ChildOf p]
               \<in> set (calls (snd (handleStartEvent e w)))"
proof (cases "get_error (Traces w) x")
  case None
  with assms have "SpanStore_Get (Traces w) x = Inr (Some p)"
    by (simp add: SpanStore_Get_def)
  from handleStartEvent_span_started [OF parentOptions_found [OF assms(1) this]] None
  show ?thesis by simp
next
  case (Some err)
  with assms show ?thesis
    by (simp add: handleStartEvent_def parentOptions_def Traces_Get_def SpanStore_Get_def)
qed

text \<open>
  The scenario of the specification: Start \<open>s2\<close> registers the trace \<open>t2\<close>,
  then Start \<open>s3\<close> names \<open>t2\<close> as its parent. Span 1 is a child of span 0.
\<close>

theorem handleStartEvent_child_of_parent_witness:
  "ParentSpanID start_s3 = Inr (Some ''t2'')
   \<and> entries (Traces (snd (handleStartEvent start_s2 world0))) ''t2'' = Some 0
   \<and> next_span (tracer (snd (handleStartEvent start_s3 (snd (handleStartEvent start_s2 world0)))))
       = 2
   \<and> references (heap (tracer (snd (handleStartEvent start_s3
                                       (snd (handleStartEvent start_s2 world0))))) 1)
       = [ChildOf 0]"
proof -
  let ?w = "snd (handleStartEvent start_s2 world0)"
  have parent: "ParentSpanID start_s3 = Inr (Some ''t2'')"
    by (simp add: start_s3_def)
  have registered: "entries (Traces ?w) ''t2'' = Some 0"
    by (simp add: run_defs scenario_defs)
  have healthy: "get_error (Traces ?w) ''t2'' = None"
    by (simp add: run_defs scenario_defs)
  have fresh: "next_span (tracer ?w) = 1"
    by (simp add: run_defs scenario_defs)
  from handleStartEvent_child_of_parent [OF parent registered] healthy fresh
  have "next_span (tracer (snd (handleStartEvent start_s3 ?w))) = 2
      \<and> references (heap (tracer (snd (handleStartEvent start_s3 ?w))) 1) = [ChildOf 0]"
    by simp
  with parent registered show ?thesis
    by blast
qed

text \<open>
  Claim C7. A Start event carries \<^verbatim>\<open>ParentSpanID\<close> \<open>x\<close> and the lookup of
  \<open>x\<close> in the trace store returns nil without an error. Then the handler goes
  on exactly as it does for the same event without a parent, from the state
  in which the lookup has been made: the two runs return the same result and
  the same state. A span is started, with no reference to a parent. When the
  remaining steps succeed (\<^verbatim>\<open>Tags\<close>, \<^verbatim>\<open>TraceID\<close> and \<^verbatim>\<open>SpanID\<close> resolve
  and the span store accepts the write) the handler returns no error.
\<close>

theorem handleStartEvent_absent_parent:
  assumes "ParentSpanID e = Inr (Some x)" and "SpanStore_Get (Traces w) x = Inr None"
  shows "handleStartEvent e w
           = handleStartEvent (e\<lparr>ParentSpanID := Inr None\<rparr>)
               (record_call (StoreGet TracesStore x) w)
       \<and> next_span (tracer (snd (handleStartEvent e w))) = Suc (next_span (tracer w))
       \<and> references (heap (tracer (snd (handleStartEvent e w))) (next_span (tracer w))) = []
       \<and> (Tags e = Inr tgs \<and> TraceID e = Inr t \<and> SpanID e = Inr sid
            \<and> set_error (Spans w) sid = None
            \<longrightarrow> fst (handleStartEvent e w) = None)"
proof -
  let ?w1 = "record_call (StoreGet TracesStore x) w"
  have po: "parentOptions e w = (Inr [], ?w1)"
    using assms by (rule parentOptions_absent)
  have "parentOptions (e\<lparr>ParentSpanID := Inr None\<rparr>) ?w1 = (Inr [], ?w1)"
    by (simp add: parentOptions_no_parent)
  with po have same:
    "handleStartEvent e w = handleStartEvent (e\<lparr>ParentSpanID := Inr None\<rparr>) ?w1"
    by (simp add: handleStartEvent_def case_prod_unfold Let_def split: sum.splits)
  have ok: "fst (handleStartEvent e w) = None"
    if "Tags e = Inr tgs \<and> TraceID e = Inr t \<and> SpanID e = Inr sid
        \<and> set_error (Spans w) sid = None"
    using that po by (auto simp add: handleStartEvent_success_iff)
  from same handleStartEvent_span_started(1,2) [OF po] ok show ?thesis
    by blast
qed

theorem handleStartEvent_absent_parent_witness:
  "ParentSpanID start_s3 = Inr (Some ''t2'')
   \<and> SpanStore_Get (Traces world0) ''t2'' = Inr None
   \<and> handleStartEvent start_s3 world0
       = handleStartEvent (start_s3\<lparr>ParentSpanID := Inr None\<rparr>)
           (record_call (StoreGet TracesStore ''t2'') world0)
   \<and> references (heap (tracer (snd (handleStartEvent start_s3 world0))) 0) = []
   \<and> fst (handleStartEvent start_s3 world0) = None"
proof -
  have parent: "ParentSpanID start_s3 = Inr (Some ''t2'')"
    by (simp add: start_s3_def)
  have absent: "SpanStore_Get (Traces world0) ''t2'' = Inr None"
    by (simp add: world0_def empty_store_def SpanStore_Get_def)
  have rest: "Tags start_s3 = Inr [] \<and> TraceID start_s3 = Inr None \<and> SpanID start_s3 = Inr ''s3''
      \<and> set_error (Spans world0) ''s3'' = None"
    by (simp add: start_s3_def world0_def empty_store_def)
  have fresh: "next_span (tracer world0) = 0"
    by (simp add: world0_def new_tracer_def)
  note run = handleStartEvent_absent_parent
               [OF parent absent, where tgs = "[]" and t = None and sid = "''s3''"]
  from run have same: "handleStartEvent start_s3 world0
       = handleStartEvent (start_s3\<lparr>ParentSpanID := Inr None\<rparr>)
           (record_call (StoreGet TracesStore ''t2'') world0)"
    by (rule conjunct1)
  from run fresh
  have orphan: "references (heap (tracer (snd (handleStartEvent start_s3 world0))) 0) = []"
    by metis
  from run rest have "fst (handleStartEvent start_s3 world0) = None"
    by blast
  with parent absent same orphan show ?thesis
    by blast
qed

text \<open>
  Claim C10. The parent resolution has succeeded, with options \<open>opts\<close>, and
  then \<^verbatim>\<open>Tags()\<close> fails, or \<^verbatim>\<open>Tags()\<close> succeeds and \<^verbatim>\<open>TraceID()\<close> fails.
  \<^verbatim>\<open>handleStartEvent\<close> returns that error and both stores are as they were.
  The tracer has one span more, started under the event's operation name and
  not finished. After the parent resolution the only calls made are
  \<^verbatim>\<open>StartSpan\<close> and the \<^verbatim>\<open>SetTag\<close> of each tag: no store is written and
  \<^verbatim>\<open>Finish\<close> is not called.
\<close>

theorem handleStartEvent_leaks_span:
  assumes "parentOptions e w = (Inr opts, w1)"
    and "Tags e = Inl err \<or> (Tags e = Inr tgs \<and> TraceID e = Inl err)"
  shows "fst (handleStartEvent e w) = Some err
       \<and> Traces (snd (handleStartEvent e w)) = Traces w
       \<and> Spans (snd (handleStartEvent e w)) = Spans w
       \<and> next_span (tracer (snd (handleStartEvent e w))) = Suc (next_span (tracer w))
       \<and> operationName (heap (tracer (snd (handleStartEvent e w))) (next_span (tracer w)))
           = OperationName e
       \<and> \<not> finished (heap (tracer (snd (handleStartEvent e w))) (next_span (tracer w)))
       \<and> calls (snd (handleStartEvent e w))
           = calls w1 @ TracerStartSpan (OperationName e) opts
               # map (\<lambda>kv. SpanSetTag (next_span (tracer w)) (fst kv) (snd kv))
                   (case Tags e of Inl err \<Rightarrow> [] | Inr kvs \<Rightarrow> kvs)"
proof -
  have w1: "tracer w1 = tracer w" "Traces w1 = Traces w" "Spans w1 = Spans w"
    using parentOptions_frame [of e w] assms(1) by simp_all
  have "fst (handleStartEvent e w) = Some err"
    using assms by (auto simp add: handleStartEvent_def case_prod_unfold Let_def)
  moreover have "Traces (snd (handleStartEvent e w)) = Traces w"
    and "Spans (snd (handleStartEvent e w)) = Spans w"
    using assms w1 by (auto simp add: handleStartEvent_def case_prod_unfold Let_def)
  moreover have "calls (snd (handleStartEvent e w))
           = calls w1 @ TracerStartSpan (OperationName e) opts
               # map (\<lambda>kv. SpanSetTag (next_span (tracer w)) (fst kv) (snd kv))
                   (case Tags e of Inl err \<Rightarrow> [] | Inr kvs \<Rightarrow> kvs)"
    using assms w1 by (auto simp add: handleStartEvent_def case_prod_unfold Let_def)
  ultimately show ?thesis
    using handleStartEvent_span_started [OF assms(1)] by simp
qed

theorem handleStartEvent_leaks_span_witness:
  "parentOptions start_bad_tags world0 = (Inr [], world0)
   \<and> Tags start_bad_tags = Inl (Err ''tags: malformed payload'')
   \<and> fst (handleStartEvent start_bad_tags world0) = Some (Err ''tags: malformed payload'')
   \<and> Traces (snd (handleStartEvent start_bad_tags world0)) = Traces world0
   \<and> Spans (snd (handleStartEvent start_bad_tags world0)) = Spans world0
   \<and> next_span (tracer (snd (handleStartEvent start_bad_tags world0))) = 1
   \<and> \<not> finished (heap (tracer (snd (handleStartEvent start_bad_tags world0))) 0)
   \<and> calls (snd (handleStartEvent start_bad_tags world0)) = [TracerStartSpan ''ticket.process'' []]"
proof -
  have resolved: "parentOptions start_bad_tags world0 = (Inr [], world0)"
    by (simp add: parentOptions_def start_bad_tags_def start_s1_def)
  have bad: "Tags start_bad_tags = Inl (Err ''tags: malformed payload'')"
    by (simp add: start_bad_tags_def)
  have fresh: "next_span (tracer world0) = 0" "calls world0 = []"
    "OperationName start_bad_tags = ''ticket.process''"
    by (simp_all add: world0_def new_tracer_def start_bad_tags_def start_s1_def)
  from handleStartEvent_leaks_span [OF resolved disjI1 [OF bad]] fresh bad
  have "fst (handleStartEvent start_bad_tags world0) = Some (Err ''tags: malformed payload'')
   \<and> Traces (snd (handleStartEvent start_bad_tags world0)) = Traces world0
   \<and> Spans (snd (handleStartEvent start_bad_tags world0)) = Spans world0
   \<and> next_span (tracer (snd (handleStartEvent start_bad_tags world0))) = 1
   \<and> \<not> finished (heap (tracer (snd (handleStartEvent start_bad_tags world0))) 0)
   \<and> calls (snd (handleStartEvent start_bad_tags world0)) = [TracerStartSpan ''ticket.process'' []]"
    by simp
  with resolved bad show ?thesis
    by blast
qed

subsection \<open>End events\<close>

text \<open>
  Claim C1. For an End event whose \<^verbatim>\<open>SpanID\<close> has no entry in the span
  store, \<^verbatim>\<open>handleEndEvent\<close> fails with \<^verbatim>\<open>SpanMissingError\<close>, whose wrapped
  error is built from that span identifier. The span store and the trace
  store come back as they were, so does the tracer, and the only call made
  is the lookup in the span store.
\<close>

theorem handleEndEvent_span_missing:
  assumes "SpanID e = Inr sid" and "entries (Spans w) sid = None"
  shows "fst (handleEndEvent e w)
           = Some (SpanMissingError (Errorf ''span not found for span: %q'' sid))
       \<and> Spans (snd (handleEndEvent e w)) = Spans w
       \<and> Traces (snd (handleEndEvent e w)) = Traces w
       \<and> tracer (snd (handleEndEvent e w)) = tracer w
       \<and> calls (snd (handleEndEvent e w)) = calls w @ [StoreGet SpansStore sid]"
  using assms by (simp add: handleEndEvent_def Spans_Get_def SpanStore_Get_def)

theorem handleEndEvent_span_missing_witness:
  "SpanID end_unknown = Inr ''s-unknown'' \<and> entries (Spans world0) ''s-unknown'' = None
   \<and> fst (handleEndEvent end_unknown world0)
       = Some (SpanMissingError (Errorf ''span not found for span: %q'' ''s-unknown''))
   \<and> Spans (snd (handleEndEvent end_unknown world0)) = Spans world0
   \<and> Traces (snd (handleEndEvent end_unknown world0)) = Traces world0"
proof -
  have sid: "SpanID end_unknown = Inr ''s-unknown''"
    by (simp add: end_unknown_def)
  have absent: "entries (Spans world0) ''s-unknown'' = None"
    by (simp add: world0_def empty_store_def)
  from handleEndEvent_span_missing [OF sid absent] sid absent
  show ?thesis by simp
qed

text \<open>
  Claim C4, as the source has it. An End event whose \<^verbatim>\<open>SpanID\<close> has an
  open entry that the span store returns is handled successfully provided
  nothing on the way fails: \<^verbatim>\<open>IsError()\<close> and \<^verbatim>\<open>TraceID()\<close> resolve, the
  span store deletes the entry, and the trace store deletes the declared
  \<^verbatim>\<open>TraceID\<close>, if there is one. Then the stored span carries the tag
  \<open>error\<close> with the value of \<^verbatim>\<open>IsError()\<close> and is finished, the span store
  has no entry for the \<^verbatim>\<open>SpanID\<close> and the trace store has none for the
  declared \<^verbatim>\<open>TraceID\<close>.
\<close>

theorem handleEndEvent_closes_span:
  assumes "SpanID e = Inr sid" and "SpanStore_Get (Spans w) sid = Inr (Some sp)"
    and "IsError e = Inr b" and "fst (SpanStore_Delete (Spans w) sid) = None"
    and "TraceID e = Inr t"
    and "\<forall>tid. t = Some tid \<longrightarrow> fst (SpanStore_Delete (Traces w) tid) = None"
  shows "fst (handleEndEvent e w) = None
       \<and> tags (heap (tracer (snd (handleEndEvent e w))) sp) ''error'' = Some (BoolValue b)
       \<and> finished (heap (tracer (snd (handleEndEvent e w))) sp)
       \<and> entries (Spans (snd (handleEndEvent e w))) sid = None
       \<and> (\<forall>tid. t = Some tid \<longrightarrow> entries (Traces (snd (handleEndEvent e w))) tid = None)"
  using assms
  by (auto simp add: handleEndEvent_def Spans_Get_def Spans_Delete_def Traces_Delete_def Let_def
        SpanStore_Delete_def SpanStore_Get_def
      split: option.splits sum.splits prod.splits if_splits)

text \<open>
  The scenario of the specification: span 0 is open under \<open>s1\<close> and \<open>t1\<close>,
  End \<open>s1\<close> closes it with \<open>error = false\<close> and empties both stores.
\<close>

theorem handleEndEvent_closes_span_witness:
  "SpanID end_s1 = Inr ''s1''
   \<and> SpanStore_Get (Spans world_s1_open) ''s1'' = Inr (Some 0)
   \<and> IsError end_s1 = Inr False
   \<and> fst (SpanStore_Delete (Spans world_s1_open) ''s1'') = None
   \<and> TraceID end_s1 = Inr (Some ''t1'')
   \<and> fst (SpanStore_Delete (Traces world_s1_open) ''t1'') = None
   \<and> fst (handleEndEvent end_s1 world_s1_open) = None
   \<and> tags (heap (tracer (snd (handleEndEvent end_s1 world_s1_open))) 0) ''error''
       = Some (BoolValue False)
   \<and> finished (heap (tracer (snd (handleEndEvent end_s1 world_s1_open))) 0)
   \<and> entries (Spans (snd (handleEndEvent end_s1 world_s1_open))) ''s1'' = None
   \<and> entries (Traces (snd (handleEndEvent end_s1 world_s1_open))) ''t1'' = None"
proof -
  have sid: "SpanID end_s1 = Inr ''s1''"
    and noerr: "IsError end_s1 = Inr False"
    and tid: "TraceID end_s1 = Inr (Some ''t1'')"
    by (simp_all add: end_s1_def)
  have found: "SpanStore_Get (Spans world_s1_open) ''s1'' = Inr (Some 0)"
    by (simp add: world_s1_open_def empty_store_def SpanStore_Get_def)
  have del_span: "fst (SpanStore_Delete (Spans world_s1_open) ''s1'') = None"
    by (simp add: world_s1_open_def empty_store_def SpanStore_Delete_def)
  have del_trace: "fst (SpanStore_Delete (Traces world_s1_open) ''t1'') = None"
    by (simp add: world_s1_open_def empty_store_def SpanStore_Delete_def)
  then have del_declared:
    "\<forall>k. Some ''t1'' = Some k \<longrightarrow> fst (SpanStore_Delete (Traces world_s1_open) k) = None"
    by simp
  from handleEndEvent_closes_span [OF sid found noerr del_span tid del_declared]
  have "fst (handleEndEvent end_s1 world_s1_open) = None
   \<and> tags (heap (tracer (snd (handleEndEvent end_s1 world_s1_open))) 0) ''error''
       = Some (BoolValue False)
   \<and> finished (heap (tracer (snd (handleEndEvent end_s1 world_s1_open))) 0)
   \<and> entries (Spans (snd (handleEndEvent end_s1 world_s1_open))) ''s1'' = None
   \<and> entries (Traces (snd (handleEndEvent end_s1 world_s1_open))) ''t1'' = None"
    by simp
  with sid found noerr del_span tid del_trace show ?thesis
    by blast
qed

text \<open>
  Claim C4 as stated fails. Span 0 is open under \<open>s1\<close> and \<open>t1\<close> and End
  \<open>s1\<close> arrives, but the trace store cannot delete \<open>t1\<close>: \<^verbatim>\<open>handleEndEvent\<close>
  returns the store's error, and the trace store still holds \<open>t1\<close>.
\<close>

theorem handleEndEvent_open_span_may_fail:
  "SpanID end_s1 = Inr ''s1''
   \<and> entries (Spans world_trace_delete_fails) ''s1'' = Some 0
   \<and> TraceID end_s1 = Inr (Some ''t1'')
   \<and> fst (handleEndEvent end_s1 world_trace_delete_fails) = Some (Err ''trace store unavailable'')
   \<and> entries (Traces (snd (handleEndEvent end_s1 world_trace_delete_fails))) ''t1'' = Some 0"
  by (simp add: run_defs scenario_defs)

text \<open>
  Claim C9. The span of an End event is found, \<^verbatim>\<open>IsError()\<close> resolves and
  the span store deletes the entry; then \<^verbatim>\<open>TraceID()\<close> fails, or it names a
  trace that the trace store fails to delete. \<^verbatim>\<open>handleEndEvent\<close> returns
  that error, and yet the span carries the \<open>error\<close> tag, is finished, and
  is gone from the span store, which is therefore not the store the call
  started with.
\<close>

theorem handleEndEvent_late_failure:
  assumes "SpanID e = Inr sid" and "SpanStore_Get (Spans w) sid = Inr (Some sp)"
    and "IsError e = Inr b" and "fst (SpanStore_Delete (Spans w) sid) = None"
    and "TraceID e = Inl err
         \<or> (\<exists>tid. TraceID e = Inr (Some tid)
                  \<and> fst (SpanStore_Delete (Traces w) tid) = Some err)"
  shows "fst (handleEndEvent e w) = Some err
       \<and> tags (heap (tracer (snd (handleEndEvent e w))) sp) ''error'' = Some (BoolValue b)
       \<and> finished (heap (tracer (snd (handleEndEvent e w))) sp)
       \<and> entries (Spans (snd (handleEndEvent e w))) sid = None
       \<and> Spans (snd (handleEndEvent e w)) \<noteq> Spans w"
proof -
  have before: "entries (Spans w) sid = Some sp"
    using assms(2) by (simp add: SpanStore_Get_def split: option.splits)
  have after: "fst (handleEndEvent e w) = Some err
       \<and> tags (heap (tracer (snd (handleEndEvent e w))) sp) ''error'' = Some (BoolValue b)
       \<and> finished (heap (tracer (snd (handleEndEvent e w))) sp)
       \<and> entries (Spans (snd (handleEndEvent e w))) sid = None"
    using assms
    by (auto simp add: handleEndEvent_def Spans_Get_def Spans_Delete_def Traces_Delete_def Let_def
          SpanStore_Delete_def SpanStore_Get_def
        split: option.splits sum.splits prod.splits if_splits)
  from before after have "Spans (snd (handleEndEvent e w)) \<noteq> Spans w"
    by auto
  with after show ?thesis by simp
qed

theorem handleEndEvent_late_failure_witness:
  "SpanID end_bad_trace = Inr ''s1''
   \<and> SpanStore_Get (Spans world_s1_open) ''s1'' = Inr (Some 0)
   \<and> IsError end_bad_trace = Inr False
   \<and> fst (SpanStore_Delete (Spans world_s1_open) ''s1'') = None
   \<and> TraceID end_bad_trace = Inl (Err ''trace id: malformed payload'')
   \<and> fst (handleEndEvent end_bad_trace world_s1_open) = Some (Err ''trace id: malformed payload'')
   \<and> finished (heap (tracer (snd (handleEndEvent end_bad_trace world_s1_open))) 0)
   \<and> entries (Spans (snd (handleEndEvent end_bad_trace world_s1_open))) ''s1'' = None
   \<and> TraceID end_s1 = Inr (Some ''t1'')
   \<and> fst (SpanStore_Delete (Traces world_trace_delete_fails) ''t1'')
       = Some (Err ''trace store unavailable'')
   \<and> fst (handleEndEvent end_s1 world_trace_delete_fails) = Some (Err ''trace store unavailable'')
   \<and> finished (heap (tracer (snd (handleEndEvent end_s1 world_trace_delete_fails))) 0)
   \<and> entries (Spans (snd (handleEndEvent end_s1 world_trace_delete_fails))) ''s1'' = None"
proof -
  have sid: "SpanID end_bad_trace = Inr ''s1''" "SpanID end_s1 = Inr ''s1''"
    and noerr: "IsError end_bad_trace = Inr False" "IsError end_s1 = Inr False"
    and bad: "TraceID end_bad_trace = Inl (Err ''trace id: malformed payload'')"
    and tid: "TraceID end_s1 = Inr (Some ''t1'')"
    by (simp_all add: end_bad_trace_def end_s1_def)
  have found: "SpanStore_Get (Spans world_s1_open) ''s1'' = Inr (Some 0)"
    "SpanStore_Get (Spans world_trace_delete_fails) ''s1'' = Inr (Some 0)"
    by (simp_all add: world_trace_delete_fails_def world_s1_open_def empty_store_def
          SpanStore_Get_def)
  have del_span: "fst (SpanStore_Delete (Spans world_s1_open) ''s1'') = None"
    "fst (SpanStore_Delete (Spans world_trace_delete_fails) ''s1'') = None"
    by (simp_all add: world_trace_delete_fails_def world_s1_open_def empty_store_def
          SpanStore_Delete_def)
  have del_trace: "fst (SpanStore_Delete (Traces world_trace_delete_fails) ''t1'')
       = Some (Err ''trace store unavailable'')"
    by (simp add: world_trace_delete_fails_def world_s1_open_def empty_store_def
          SpanStore_Delete_def)
  with tid have stuck: "\<exists>k. TraceID end_s1 = Inr (Some k)
      \<and> fst (SpanStore_Delete (Traces world_trace_delete_fails) k)
          = Some (Err ''trace store unavailable'')"
    by blast
  from handleEndEvent_late_failure [OF sid(1) found(1) noerr(1) del_span(1) disjI1 [OF bad]]
  have first: "fst (handleEndEvent end_bad_trace world_s1_open) = Some (Err ''trace id: malformed payload'')
   \<and> finished (heap (tracer (snd (handleEndEvent end_bad_trace world_s1_open))) 0)
   \<and> entries (Spans (snd (handleEndEvent end_bad_trace world_s1_open))) ''s1'' = None"
    by simp
  from handleEndEvent_late_failure [OF sid(2) found(2) noerr(2) del_span(2) disjI2 [OF stuck]]
  have second: "fst (handleEndEvent end_s1 world_trace_delete_fails) = Some (Err ''trace store unavailable'')
   \<and> finished (heap (tracer (snd (handleEndEvent end_s1 world_trace_delete_fails))) 0)
   \<and> entries (Spans (snd (handleEndEvent end_s1 world_trace_delete_fails))) ''s1'' = None"
    by simp
  from first second sid(1) found(1) noerr(1) del_span(1) bad tid del_trace show ?thesis
    by blast
qed

end
